theory Spec2Isabelle
  imports Main
begin

section \<open>Exceptions\<close>

text \<open>
  The classes of \<^verbatim>\<open>selenium.common.exceptions\<close> that the page object names, with
  the one the driver raises when no alert is open.  \<^verbatim>\<open>WebDriverException\<close> is the base
  class of all of them; the others are its direct subclasses.
\<close>

datatype sel_class =
    WebDriverException
  | TimeoutException
  | NoSuchElementException
  | ElementClickInterceptedException
  | StaleElementReferenceException
  | NoAlertPresentException

text \<open>A driver exception: its class and the text \<^verbatim>\<open>str(e)\<close> gives.\<close>

datatype sel_exc = SelExc sel_class string

fun exc_class :: "sel_exc \<Rightarrow> sel_class" where
  "exc_class (SelExc c m) = c"

fun str_exc :: "sel_exc \<Rightarrow> string" where
  "str_exc (SelExc c m) = m"

definition issubclass :: "sel_class \<Rightarrow> sel_class \<Rightarrow> bool" where
  "issubclass c base = (base = WebDriverException \<or> c = base)"

text \<open>\<^verbatim>\<open>except (A, B, C)\<close> catches an exception that is an instance of one of the classes.\<close>

definition isinstance :: "sel_exc \<Rightarrow> sel_class list \<Rightarrow> bool" where
  "isinstance e bases = list_ex (issubclass (exc_class e)) bases"

text \<open>
  What the code of the repository can raise: a driver exception it did not catch, the
  \<^verbatim>\<open>Exception(msg)\<close> a method of the page object raises itself, a failed \<^verbatim>\<open>assert\<close> of a
  test body, and the exception of \<^verbatim>\<open>pytest.fail(msg)\<close>.
\<close>

datatype exc =
    Selenium sel_exc
  | PyException string
  | AssertionError string
  | Failed string

section \<open>The browser driver and the observable trace\<close>

type_synonym locator = "string \<times> string"
type_synonym element = string

datatype level = DEBUG | INFO | WARNING | ERROR | CRITICAL

datatype condition =
    ElementToBeClickable locator
  | PresenceOfElementLocated locator
  | VisibilityOfElementLocated locator

datatype call =
    Until int condition
  | UntilReadyState int
  | Click element
  | Clear element
  | SendKeys element string
  | GetText element
  | FindElement locator
  | ExecuteScript string "element list"
  | SwitchToAlert
  | AlertText
  | AlertAccept
  | AlertDismiss
  | StartChrome string
  | ImplicitlyWait int
  | Get string
  | Quit

datatype event = Log level string | Sleep nat | Call call

text \<open>
  The driver is the external capability: every primitive takes the state of the browser
  and returns what the call returns or raises, with the state after it.
  \<open>wait_until t c\<close> is \<^verbatim>\<open>WebDriverWait(driver, t).until(c)\<close> for an expected condition \<open>c\<close>,
  \<open>wait_ready_state t\<close> is the same bounded wait on the page-ready signal
  \<^verbatim>\<open>driver.execute_script("return document.readyState") == "complete"\<close>;
  \<open>str_locator\<close> is Python's \<^verbatim>\<open>str\<close> of the locator tuple and \<open>time_sleep\<close> what the browser
  does while the caller sleeps.
\<close>

record 'd webdriver =
  wait_until :: "int \<Rightarrow> condition \<Rightarrow> 'd \<Rightarrow> (sel_exc + element) \<times> 'd"
  wait_ready_state :: "int \<Rightarrow> 'd \<Rightarrow> (sel_exc + unit) \<times> 'd"
  element_click :: "element \<Rightarrow> 'd \<Rightarrow> (sel_exc + unit) \<times> 'd"
  element_clear :: "element \<Rightarrow> 'd \<Rightarrow> (sel_exc + unit) \<times> 'd"
  element_send_keys :: "element \<Rightarrow> string \<Rightarrow> 'd \<Rightarrow> (sel_exc + unit) \<times> 'd"
  element_text :: "element \<Rightarrow> 'd \<Rightarrow> (sel_exc + string) \<times> 'd"
  find_element :: "locator \<Rightarrow> 'd \<Rightarrow> (sel_exc + element) \<times> 'd"
  execute_script :: "string \<Rightarrow> element list \<Rightarrow> 'd \<Rightarrow> (sel_exc + unit) \<times> 'd"
  switch_to_alert :: "'d \<Rightarrow> (sel_exc + unit) \<times> 'd"
  alert_get_text :: "'d \<Rightarrow> (sel_exc + string) \<times> 'd"
  alert_accept :: "'d \<Rightarrow> (sel_exc + unit) \<times> 'd"
  alert_dismiss :: "'d \<Rightarrow> (sel_exc + unit) \<times> 'd"
  start_chrome :: "string \<Rightarrow> 'd \<Rightarrow> (sel_exc + unit) \<times> 'd"
  implicitly_wait :: "int \<Rightarrow> 'd \<Rightarrow> (sel_exc + unit) \<times> 'd"
  driver_get :: "string \<Rightarrow> 'd \<Rightarrow> (sel_exc + unit) \<times> 'd"
  driver_quit :: "'d \<Rightarrow> (sel_exc + unit) \<times> 'd"
  time_sleep :: "nat \<Rightarrow> 'd \<Rightarrow> 'd"
  str_locator :: "locator \<Rightarrow> string"

text \<open>
  The state a run threads: the browser, and the trace of what the code did to the
  outside, in order: log records, sleeps and driver calls.
\<close>

record 'd world =
  drv :: 'd
  trace :: "event list"

definition logger :: "level \<Rightarrow> string \<Rightarrow> 'd world \<Rightarrow> 'd world" where
  "logger lvl msg st = st\<lparr>trace := trace st @ [Log lvl msg]\<rparr>"

definition sleep :: "'d webdriver \<Rightarrow> nat \<Rightarrow> 'd world \<Rightarrow> 'd world" where
  "sleep ops n st = st\<lparr>drv := time_sleep ops n (drv st), trace := trace st @ [Sleep n]\<rparr>"

definition invoke ::
  "call \<Rightarrow> ('d \<Rightarrow> (sel_exc + 'a) \<times> 'd) \<Rightarrow> 'd world \<Rightarrow> (sel_exc + 'a) \<times> 'd world" where
  "invoke c f st =
     (case f (drv st) of (r, d') \<Rightarrow> (r, st\<lparr>drv := d', trace := trace st @ [Call c]\<rparr>))"

section \<open>Text of the log messages\<close>

text \<open>The three marks of the messages, as the UTF-8 bytes of the source file.\<close>

definition check_mark :: string where
  "check_mark = [CHR 0xE2, CHR 0x9C, CHR 0x85]"

definition warning_sign :: string where
  "warning_sign = [CHR 0xE2, CHR 0x9A, CHR 0xA0, CHR 0xEF, CHR 0xB8, CHR 0x8F]"

definition cross_mark :: string where
  "cross_mark = [CHR 0xE2, CHR 0x9D, CHR 0x8C]"

fun str_nat :: "nat \<Rightarrow> string" where
  "str_nat n = (if n < 10 then [''0123456789'' ! n]
                else str_nat (n div 10) @ [''0123456789'' ! (n mod 10)])"

definition str_int :: "int \<Rightarrow> string" where
  "str_int i = (if i < 0 then ''-'' @ str_nat (nat (- i)) else str_nat (nat i))"

definition range :: "int \<Rightarrow> int list" where
  "range n = [0..n - 1]"

text \<open>Sequencing inside a \<^verbatim>\<open>try\<close> block: the first call that raises ends the block.\<close>

definition and_then ::
  "('s \<Rightarrow> ('e + 'a) \<times> 's) \<Rightarrow> ('a \<Rightarrow> 's \<Rightarrow> ('e + 'b) \<times> 's) \<Rightarrow> 's \<Rightarrow> ('e + 'b) \<times> 's" where
  "and_then m f st = (case m st of (Inl e, st1) \<Rightarrow> (Inl e, st1) | (Inr x, st1) \<Rightarrow> f x st1)"

section \<open>The page object\<close>

record 'd base_page =
  driver :: "'d webdriver"
  wait :: int

text \<open>
  The constructor: the driver and a \<^verbatim>\<open>WebDriverWait(driver, 10)\<close>.  What the methods hand to
  \<^verbatim>\<open>self.logger\<close> is recorded in the trace.
\<close>

definition BasePage :: "'d webdriver \<Rightarrow> 'd base_page" where
  "BasePage d = \<lparr>driver = d, wait = 10\<rparr>"

definition until :: "'d base_page \<Rightarrow> condition \<Rightarrow> 'd world \<Rightarrow> (sel_exc + element) \<times> 'd world" where
  "until self c st = invoke (Until (wait self) c) (wait_until (driver self) (wait self) c) st"

subsection \<open>click\<close>

definition click_try :: "'d base_page \<Rightarrow> locator \<Rightarrow> 'd world \<Rightarrow> (sel_exc + unit) \<times> 'd world" where
  "click_try self locator st =
     (case until self (ElementToBeClickable locator) st of
        (Inl e, st1) \<Rightarrow> (Inl e, st1)
      | (Inr element, st1) \<Rightarrow>
          (case invoke (Click element) (element_click (driver self) element) st1 of
             (Inl e, st2) \<Rightarrow> (Inl e, st2)
           | (Inr u, st2) \<Rightarrow>
               (Inr (), logger INFO
                  (check_mark @ '' Clicked on: '' @ str_locator (driver self) locator) st2)))"

fun click_loop ::
  "'d base_page \<Rightarrow> locator \<Rightarrow> int \<Rightarrow> int list \<Rightarrow> 'd world \<Rightarrow> (exc + unit) option \<times> 'd world" where
  "click_loop self locator retries [] st = (None, st)"
| "click_loop self locator retries (attempt # rest) st =
     (case click_try self locator st of
        (Inr u, st1) \<Rightarrow> (Some (Inr ()), st1)
      | (Inl e, st1) \<Rightarrow>
          if isinstance e [TimeoutException, ElementClickInterceptedException,
                           StaleElementReferenceException]
          then click_loop self locator retries rest
                 (sleep (driver self) 1
                    (logger WARNING
                       (warning_sign @ '' Click failed ('' @ str_int (attempt + 1) @ ''/''
                          @ str_int retries @ '') for '' @ str_locator (driver self) locator
                          @ '' - '' @ str_exc e) st1))
          else (Some (Inl (Selenium e)), st1))"

definition click :: "'d base_page \<Rightarrow> locator \<Rightarrow> int \<Rightarrow> 'd world \<Rightarrow> (exc + unit) \<times> 'd world" where
  "click self locator retries st =
     (case click_loop self locator retries (range retries) st of
        (Some r, st1) \<Rightarrow> (r, st1)
      | (None, st1) \<Rightarrow>
          (Inl (PyException (''Click failed for '' @ str_locator (driver self) locator)),
           logger ERROR
             (cross_mark @ '' Click failed for '' @ str_locator (driver self) locator
                @ '' after '' @ str_int retries @ '' retries'') st1))"

subsection \<open>enter_text\<close>

definition enter_text_try ::
  "'d base_page \<Rightarrow> locator \<Rightarrow> string \<Rightarrow> bool \<Rightarrow> 'd world \<Rightarrow> (sel_exc + unit) \<times> 'd world" where
  "enter_text_try self locator text clear =
     and_then (until self (PresenceOfElementLocated locator)) (\<lambda>element.
     and_then (if clear then invoke (Clear element) (element_clear (driver self) element)
               else (\<lambda>st. (Inr (), st))) (\<lambda>u.
     and_then (invoke (SendKeys element text) (element_send_keys (driver self) element text)) (\<lambda>u st.
       (Inr (), logger INFO
          (check_mark @ '' Entered text '' @ [CHR 0x27] @ text @ [CHR 0x27] @ '' in ''
             @ str_locator (driver self) locator) st))))"

definition enter_text ::
  "'d base_page \<Rightarrow> locator \<Rightarrow> string \<Rightarrow> bool \<Rightarrow> 'd world \<Rightarrow> (exc + unit) \<times> 'd world" where
  "enter_text self locator text clear st =
     (case enter_text_try self locator text clear st of
        (Inr u, st1) \<Rightarrow> (Inr (), st1)
      | (Inl e, st1) \<Rightarrow>
          if isinstance e [TimeoutException]
          then (Inl (PyException
                  (''Timeout: Unable to enter text in '' @ str_locator (driver self) locator)),
                logger ERROR
                  (cross_mark @ '' Timeout: Unable to enter text in ''
                     @ str_locator (driver self) locator) st1)
          else (Inl (Selenium e), st1))"

subsection \<open>get_text\<close>



subsection \<open>is_element_present\<close>

definition is_element_present ::
  "'d base_page \<Rightarrow> locator \<Rightarrow> 'd world \<Rightarrow> (exc + bool) \<times> 'd world" where
  "is_element_present self locator st =
     (case invoke (FindElement locator) (find_element (driver self) locator) st of
        (Inr element, st1) \<Rightarrow>
          (Inr True, logger INFO
             (check_mark @ '' Element '' @ str_locator (driver self) locator @ '' is present'') st1)
      | (Inl e, st1) \<Rightarrow>
          if isinstance e [NoSuchElementException]
          then (Inr False, logger WARNING
                  (warning_sign @ '' Element '' @ str_locator (driver self) locator
                     @ '' is NOT present'') st1)
          else (Inl (Selenium e), st1))"

subsection \<open>scroll_to_element\<close>



subsection \<open>handle_alert\<close>

definition handle_alert_try ::
  "'d base_page \<Rightarrow> bool \<Rightarrow> 'd world \<Rightarrow> (sel_exc + string) \<times> 'd world" where
  "handle_alert_try self accept =
     and_then (invoke SwitchToAlert (switch_to_alert (driver self))) (\<lambda>alert.
     and_then (invoke AlertText (alert_get_text (driver self))) (\<lambda>alert_text.
       if accept
       then and_then (invoke AlertAccept (alert_accept (driver self))) (\<lambda>u st.
              (Inr alert_text, logger INFO (check_mark @ '' Alert accepted: '' @ alert_text) st))
       else and_then (invoke AlertDismiss (alert_dismiss (driver self))) (\<lambda>u st.
              (Inr alert_text, logger INFO (check_mark @ '' Alert dismissed: '' @ alert_text) st))))"

definition handle_alert ::
  "'d base_page \<Rightarrow> bool \<Rightarrow> 'd world \<Rightarrow> (exc + string option) \<times> 'd world" where
  "handle_alert self accept st =
     (case handle_alert_try self accept st of
        (Inr alert_text, st1) \<Rightarrow> (Inr (Some alert_text), st1)
      | (Inl e, st1) \<Rightarrow>
          if isinstance e [WebDriverException]
          then (Inr None, logger WARNING (warning_sign @ '' No alert found'') st1)
          else (Inl (Selenium e), st1))"

subsection \<open>wait_for_page_load\<close>

definition wait_for_page_load ::
  "'d base_page \<Rightarrow> int \<Rightarrow> 'd world \<Rightarrow> (exc + unit) \<times> 'd world" where
  "wait_for_page_load self timeout st =
     (case invoke (UntilReadyState timeout) (wait_ready_state (driver self) timeout) st of
        (Inr u, st1) \<Rightarrow> (Inr (), logger INFO (check_mark @ '' Page fully loaded'') st1)
      | (Inl e, st1) \<Rightarrow>
          if isinstance e [TimeoutException]
          then (Inr (), logger ERROR
                  (cross_mark @ '' Timeout: Page did not load completely'') st1)
          else (Inl (Selenium e), st1))"

section \<open>The browser fixture\<close>

definition driver_path :: string where
  "driver_path = ''C:/Users/Apurba2.Dey/Downloads/chromedriver-win64 (1)/chromedriver-win64/chromedriver.exe''"

text \<open>The \<^verbatim>\<open>finally\<close> block; \<open>has_driver\<close> is \<^verbatim>\<open>'driver' in locals()\<close>.\<close>

definition browser_finally ::
  "'d webdriver \<Rightarrow> bool \<Rightarrow> 'd world \<Rightarrow> (sel_exc + unit) \<times> 'd world" where
  "browser_finally ops has_driver st =
     (if has_driver
      then and_then (invoke Quit (driver_quit ops)) (\<lambda>u st1.
             (Inr (), logger INFO ''Browser closed after the test.'' st1)) st
      else (Inr (), st))"

text \<open>
  The \<^verbatim>\<open>except WebDriverException\<close> handler, followed by the \<^verbatim>\<open>finally\<close> block: an
  exception of the \<^verbatim>\<open>finally\<close> block replaces the one in flight.
\<close>

definition browser_except ::
  "'d webdriver \<Rightarrow> sel_exc \<Rightarrow> bool \<Rightarrow> 'd world \<Rightarrow> (exc + unit) \<times> 'd world" where
  "browser_except ops e has_driver st =
     (if isinstance e [WebDriverException]
      then (case browser_finally ops has_driver
                   (logger ERROR
                      (''Failed to initialize the browser or load the page: '' @ str_exc e) st) of
              (Inl e', st1) \<Rightarrow> (Inl (Selenium e'), st1)
            | (Inr u, st1) \<Rightarrow>
                (Inl (Failed (''Test failed due to WebDriverException: '' @ str_exc e)), st1))
      else (case browser_finally ops has_driver st of
              (Inl e', st1) \<Rightarrow> (Inl (Selenium e'), st1)
            | (Inr u, st1) \<Rightarrow> (Inl (Selenium e), st1)))"

text \<open>
  The generator up to its \<^verbatim>\<open>yield\<close>: \<open>Inr ()\<close> when the driver is handed to the test,
  \<open>Inl\<close> when the set-up raised (its handler and \<^verbatim>\<open>finally\<close> block have run by then).
\<close>

definition browser_setup :: "'d webdriver \<Rightarrow> 'd world \<Rightarrow> (exc + unit) \<times> 'd world" where
  "browser_setup ops st =
     (case invoke (StartChrome driver_path) (start_chrome ops driver_path)
             (logger INFO ''Starting the browser setup...'' st) of
        (Inl e, st1) \<Rightarrow> browser_except ops e False st1
      | (Inr u, st1) \<Rightarrow>
          (case invoke (ImplicitlyWait 10) (implicitly_wait ops 10) st1 of
             (Inl e, st2) \<Rightarrow> browser_except ops e True st2
           | (Inr u, st2) \<Rightarrow>
               (case invoke (Get ''https://www.google.com'')
                       (driver_get ops ''https://www.google.com'')
                       (logger INFO ''Navigating to Google homepage'' st2) of
                  (Inl e, st3) \<Rightarrow> browser_except ops e True st3
                | (Inr u, st3) \<Rightarrow> (Inr (), st3))))"

text \<open>The generator resumed after the test: nothing is left of the \<^verbatim>\<open>try\<close> block.\<close>

definition browser_teardown :: "'d webdriver \<Rightarrow> 'd world \<Rightarrow> (exc + unit) \<times> 'd world" where
  "browser_teardown ops st =
     (case browser_finally ops True st of
        (Inl e, st1) \<Rightarrow> (Inl (Selenium e), st1)
      | (Inr u, st1) \<Rightarrow> (Inr (), st1))"

text \<open>
  One test with the fixture, as the test runner drives a generator fixture: the set-up;
  when it yields, the test body, and then the generator resumed, whatever the body
  returned or raised.  The report holds the outcome of each phase that ran.
\<close>

record report =
  setup_outcome :: "exc + unit"
  call_outcome :: "(exc + unit) option"
  teardown_outcome :: "(exc + unit) option"

definition run_test ::
  "'d webdriver \<Rightarrow> ('d world \<Rightarrow> (exc + unit) \<times> 'd world) \<Rightarrow> 'd world \<Rightarrow> report \<times> 'd world" where
  "run_test ops body st =
     (case browser_setup ops st of
        (Inl e, st1) \<Rightarrow>
          (\<lparr>setup_outcome = Inl e, call_outcome = None, teardown_outcome = None\<rparr>, st1)
      | (Inr u, st1) \<Rightarrow>
          (case body st1 of (r, st2) \<Rightarrow>
             (case browser_teardown ops st2 of (t, st3) \<Rightarrow>
                (\<lparr>setup_outcome = Inr (), call_outcome = Some r, teardown_outcome = Some t\<rparr>,
                 st3))))"

section \<open>The logging sink\<close>





record log_record =
  asctime :: string
  levelname :: level
  message :: string














section \<open>Reading a trace\<close>

definition new_events :: "'d world \<Rightarrow> 'd world \<Rightarrow> event list" where
  "new_events st st' = drop (length (trace st)) (trace st')"

fun log_records :: "event list \<Rightarrow> (level \<times> string) list" where
  "log_records [] = []"
| "log_records (Log l m # es) = (l, m) # log_records es"
| "log_records (e # es) = log_records es"

fun sleeps :: "event list \<Rightarrow> nat list" where
  "sleeps [] = []"
| "sleeps (Sleep n # es) = n # sleeps es"
| "sleeps (e # es) = sleeps es"

fun calls :: "event list \<Rightarrow> call list" where
  "calls [] = []"
| "calls (Call c # es) = c # calls es"
| "calls (e # es) = calls es"



text \<open>An event without the text of its message: what kind of step it was.\<close>

fun erase :: "event \<Rightarrow> event" where
  "erase (Log l m) = Log l []"
| "erase e = e"

section \<open>A scripted browser\<close>

text \<open>
  A browser for the examples, built from a table of faults: a call listed in the table
  raises the exception given there, every other call succeeds (every element is there, an
  alert with the text \<open>Sure?\<close> is open, the page is loaded).
\<close>

definition answer :: "(call \<rightharpoonup> sel_exc) \<Rightarrow> call \<Rightarrow> 'a \<Rightarrow> unit \<Rightarrow> (sel_exc + 'a) \<times> unit" where
  "answer faults c v d = (case faults c of Some e \<Rightarrow> (Inl e, d) | None \<Rightarrow> (Inr v, d))"

definition scripted :: "(call \<rightharpoonup> sel_exc) \<Rightarrow> unit webdriver" where
  "scripted faults =
     \<lparr>wait_until = (\<lambda>t c. answer faults (Until t c) ''e1''),
      wait_ready_state = (\<lambda>t. answer faults (UntilReadyState t) ()),
      element_click = (\<lambda>el. answer faults (Click el) ()),
      element_clear = (\<lambda>el. answer faults (Clear el) ()),
      element_send_keys = (\<lambda>el keys. answer faults (SendKeys el keys) ()),
      element_text = (\<lambda>el. answer faults (GetText el) ''hello''),
      find_element = (\<lambda>l. answer faults (FindElement l) ''e1''),
      execute_script = (\<lambda>script args. answer faults (ExecuteScript script args) ()),
      switch_to_alert = answer faults SwitchToAlert (),
      alert_get_text = answer faults AlertText ''Sure?'',
      alert_accept = answer faults AlertAccept (),
      alert_dismiss = answer faults AlertDismiss (),
      start_chrome = (\<lambda>path. answer faults (StartChrome path) ()),
      implicitly_wait = (\<lambda>t. answer faults (ImplicitlyWait t) ()),
      driver_get = (\<lambda>url. answer faults (Get url) ()),
      driver_quit = answer faults Quit (),
      time_sleep = (\<lambda>n d. d),
      str_locator = (\<lambda>l. ''('' @ fst l @ '', '' @ snd l @ '')'')\<rparr>"

definition live_page :: "unit webdriver" where
  "live_page = scripted Map.empty"

text \<open>
  The same browser with nothing in it: every bounded wait times out, no element is
  found and no alert is open.
\<close>

definition timeout_page :: "unit webdriver" where
  "timeout_page =
     scripted (\<lambda>c. case c of
         Until t cond \<Rightarrow> Some (SelExc TimeoutException ''Message: '')
       | UntilReadyState t \<Rightarrow> Some (SelExc TimeoutException ''Message: '')
       | FindElement l \<Rightarrow> Some (SelExc NoSuchElementException ''Message: no such element'')
       | SwitchToAlert \<Rightarrow> Some (SelExc NoAlertPresentException ''Message: no such alert'')
       | _ \<Rightarrow> None)"

definition start :: "unit world" where
  "start = \<lparr>drv = (), trace = []\<rparr>"

text \<open>Browsers with a single fault each.\<close>

definition unreachable_page :: "unit webdriver" where
  "unreachable_page =
     scripted [FindElement (''id'', ''q'')
       \<mapsto> SelExc WebDriverException ''Message: chrome not reachable'']"

definition stale_page :: "unit webdriver" where
  "stale_page =
     scripted [Clear ''e1''
       \<mapsto> SelExc StaleElementReferenceException ''Message: stale element reference'']"

definition hung_page :: "unit webdriver" where
  "hung_page =
     scripted [Clear ''e1''
       \<mapsto> SelExc TimeoutException
           ''Message: timeout: Timed out receiving message from renderer'']"

section \<open>Examples of test bodies and of log records\<close>

text \<open>
  Three test bodies, one for each way a test can end: it passes, an assertion fails, or
  the driver raises under it.
\<close>

definition passing_body :: "unit world \<Rightarrow> (exc + unit) \<times> unit world" where
  "passing_body st = (Inr (), logger INFO ''passed'' st)"

definition failing_body :: "unit world \<Rightarrow> (exc + unit) \<times> unit world" where
  "failing_body st =
     (Inl (AssertionError ''Google homepage title is not correct.''),
      logger ERROR ''Test failed: Google homepage title is not correct.'' st)"

definition erroring_body :: "unit world \<Rightarrow> (exc + unit) \<times> unit world" where
  "erroring_body st =
     (Inl (Selenium (SelExc WebDriverException ''Message: no such window'')),
      logger ERROR ''An unexpected error occurred: Message: no such window'' st)"





section \<open>Facts about traces\<close>

lemma log_records_append: "log_records (xs @ ys) = log_records xs @ log_records ys"
  by (induction xs rule: log_records.induct) simp_all

lemma sleeps_append: "sleeps (xs @ ys) = sleeps xs @ sleeps ys"
  by (induction xs rule: sleeps.induct) simp_all


lemma levels_erase: "map fst (log_records (map erase es)) = map fst (log_records es)"
  by (induction es rule: log_records.induct) simp_all

lemma sleeps_erase: "sleeps (map erase es) = sleeps es"
  by (induction es rule: sleeps.induct) simp_all

lemma invoke_result:
  "f (drv st) = (r, d') \<Longrightarrow> invoke c f st = (r, st\<lparr>drv := d', trace := trace st @ [Call c]\<rparr>)"
  by (simp add: invoke_def)

lemma isinstance_single: "isinstance e [c] = (c = WebDriverException \<or> exc_class e = c)"
  by (simp add: isinstance_def issubclass_def)

section \<open>click\<close>

lemma length_range: "length (range n) = nat n"
  by (simp add: range_def)

lemma click_try_raises:
  assumes "wait_until (driver self) (wait self) (ElementToBeClickable locator) (drv st)
             = (Inl e, d')"
  shows "click_try self locator st
           = (Inl e, st\<lparr>drv := d',
                trace := trace st @ [Call (Until (wait self) (ElementToBeClickable locator))]\<rparr>)"
  using assms by (simp add: click_try_def until_def invoke_def)

lemma click_loop_never_clickable:
  assumes "\<forall>d. \<exists>m d'. wait_until (driver self) (wait self) (ElementToBeClickable locator) d
             = (Inl (SelExc TimeoutException m), d')"
  shows "\<exists>st' added. click_loop self locator retries xs st = (None, st')
           \<and> trace st' = trace st @ added
           \<and> map erase added = concat (replicate (length xs)
                 [Call (Until (wait self) (ElementToBeClickable locator)), Log WARNING [], Sleep 1])"
proof (induction xs arbitrary: st)
  case Nil
  then show ?case by simp
next
  case (Cons attempt rest)
  from assms obtain m d' where
    w: "wait_until (driver self) (wait self) (ElementToBeClickable locator) (drv st)
          = (Inl (SelExc TimeoutException m), d')"
    by blast
  let ?c = "Call (Until (wait self) (ElementToBeClickable locator))"
  let ?msg = "warning_sign @ '' Click failed ('' @ str_int (attempt + 1) @ ''/''
                          @ str_int retries @ '') for '' @ str_locator (driver self) locator
                          @ '' - '' @ m"
  let ?st2 = "sleep (driver self) 1 (logger WARNING ?msg
                (st\<lparr>drv := d', trace := trace st @ [?c]\<rparr>))"
  have step: "click_loop self locator retries (attempt # rest) st
                = click_loop self locator retries rest ?st2"
    by (simp add: click_try_raises[OF w] isinstance_def issubclass_def)
  have tr: "trace ?st2 = trace st @ [?c, Log WARNING ?msg, Sleep 1]"
    by (simp add: sleep_def logger_def)
  from Cons.IH[of ?st2] obtain st' added where
    r: "click_loop self locator retries rest ?st2 = (None, st')"
    and t: "trace st' = trace ?st2 @ added"
    and s: "map erase added = concat (replicate (length rest) [?c, Log WARNING [], Sleep 1])"
    by blast
  have a: "trace st' = trace st @ ([?c, Log WARNING ?msg, Sleep 1] @ added)"
    using t tr by simp
  have b: "map erase ([?c, Log WARNING ?msg, Sleep 1] @ added)
      = concat (replicate (length (attempt # rest)) [?c, Log WARNING [], Sleep 1])"
    using s by simp
  show ?case
  proof (intro exI conjI)
    show "click_loop self locator retries (attempt # rest) st = (None, st')"
      using step r by simp
    show "trace st' = trace st @ ([?c, Log WARNING ?msg, Sleep 1] @ added)" by (rule a)
    show "map erase ([?c, Log WARNING ?msg, Sleep 1] @ added)
      = concat (replicate (length (attempt # rest)) [?c, Log WARNING [], Sleep 1])" by (rule b)
  qed
qed

lemma levels_of_failed_attempts:
  "map fst (log_records (concat (replicate n [Call c, Log WARNING m, Sleep k])))
     = replicate n WARNING"
  by (induction n) simp_all

lemma sleeps_of_failed_attempts:
  "sleeps (concat (replicate n [Call c, Log WARNING m, Sleep k])) = replicate n k"
  by (induction n) simp_all

text \<open>
  C1.  When the locator never becomes clickable within the wait bound (every bounded
  wait for it raises \<^verbatim>\<open>TimeoutException\<close>, whatever the state of the browser),
  \<open>click locator retries\<close> raises \<^verbatim>\<open>Exception("Click failed for ...")\<close>.  What it did
  before is \<open>retries\<close> rounds of: one wait, one warning record, one sleep of the fixed
  length 1; then one error record, the last event.  So it logs exactly \<open>retries\<close>
  warnings, one per failed attempt, and every sleep has the same length.  (\<open>nat retries\<close>
  is \<open>retries\<close> itself unless it is negative, when \<^verbatim>\<open>range(retries)\<close> is empty.)
\<close>

theorem click_never_clickable:
  assumes "\<forall>d. \<exists>m d'. wait_until (driver self) (wait self) (ElementToBeClickable locator) d
             = (Inl (SelExc TimeoutException m), d')"
  shows "\<exists>st'. click self locator retries st
            = (Inl (PyException (''Click failed for '' @ str_locator (driver self) locator)), st')
         \<and> take (length (trace st)) (trace st') = trace st
         \<and> map erase (new_events st st')
             = concat (replicate (nat retries)
                 [Call (Until (wait self) (ElementToBeClickable locator)), Log WARNING [], Sleep 1])
               @ [Log ERROR []]
         \<and> map fst (log_records (new_events st st')) = replicate (nat retries) WARNING @ [ERROR]
         \<and> sleeps (new_events st st') = replicate (nat retries) 1
         \<and> last (trace st') = Log ERROR (cross_mark @ '' Click failed for ''
               @ str_locator (driver self) locator @ '' after '' @ str_int retries @ '' retries'')"
proof -
  let ?c = "Call (Until (wait self) (ElementToBeClickable locator))"
  from click_loop_never_clickable[OF assms, of retries "range retries" st]
  obtain st1 added where
    r: "click_loop self locator retries (range retries) st = (None, st1)"
    and t: "trace st1 = trace st @ added"
    and s: "map erase added = concat (replicate (nat retries) [?c, Log WARNING [], Sleep 1])"
    by (auto simp: length_range)
  let ?msg = "cross_mark @ '' Click failed for ''
               @ str_locator (driver self) locator @ '' after '' @ str_int retries @ '' retries''"
  let ?st' = "logger ERROR ?msg st1"
  have res: "click self locator retries st
            = (Inl (PyException (''Click failed for '' @ str_locator (driver self) locator)), ?st')"
    by (simp add: click_def r)
  have tr: "trace ?st' = trace st @ added @ [Log ERROR ?msg]"
    by (simp add: logger_def t)
  have new: "new_events st ?st' = added @ [Log ERROR ?msg]"
    unfolding new_events_def tr by simp
  have lv: "map fst (log_records added) = replicate (nat retries) WARNING"
    using levels_erase[of added] unfolding s by (simp add: levels_of_failed_attempts)
  have sl: "sleeps added = replicate (nat retries) 1"
    using sleeps_erase[of added] unfolding s by (simp add: sleeps_of_failed_attempts)
  show ?thesis
  proof (intro exI conjI)
    show "click self locator retries st
            = (Inl (PyException (''Click failed for '' @ str_locator (driver self) locator)), ?st')"
      by (rule res)
    show "take (length (trace st)) (trace ?st') = trace st" unfolding tr by simp
    show "map erase (new_events st ?st')
            = concat (replicate (nat retries) [?c, Log WARNING [], Sleep 1]) @ [Log ERROR []]"
      unfolding new by (simp add: s)
    show "map fst (log_records (new_events st ?st')) = replicate (nat retries) WARNING @ [ERROR]"
      unfolding new by (simp add: log_records_append lv)
    show "sleeps (new_events st ?st') = replicate (nat retries) 1"
      unfolding new by (simp add: sleeps_append sl)
    show "last (trace ?st') = Log ERROR ?msg" unfolding tr by simp
  qed
qed


theorem click_never_clickable_witness:
  "(\<forall>d. \<exists>m d'. wait_until (driver (BasePage timeout_page)) (wait (BasePage timeout_page))
        (ElementToBeClickable (''id'', ''q'')) d = (Inl (SelExc TimeoutException m), d'))
   \<and> (\<exists>st'. click (BasePage timeout_page) (''id'', ''q'') 2 start
            = (Inl (PyException (''Click failed for ''
                 @ str_locator (driver (BasePage timeout_page)) (''id'', ''q''))), st')
         \<and> take (length (trace start)) (trace st') = trace start
         \<and> map erase (new_events start st')
             = concat (replicate (nat 2)
                 [Call (Until (wait (BasePage timeout_page)) (ElementToBeClickable (''id'', ''q''))),
                  Log WARNING [], Sleep 1])
               @ [Log ERROR []]
         \<and> map fst (log_records (new_events start st')) = replicate (nat 2) WARNING @ [ERROR]
         \<and> sleeps (new_events start st') = replicate (nat 2) 1
         \<and> last (trace st') = Log ERROR (cross_mark @ '' Click failed for ''
               @ str_locator (driver (BasePage timeout_page)) (''id'', ''q'')
               @ '' after '' @ str_int 2 @ '' retries''))"
proof -
  have h: "\<forall>d. \<exists>m d'. wait_until (driver (BasePage timeout_page)) (wait (BasePage timeout_page))
        (ElementToBeClickable (''id'', ''q'')) d = (Inl (SelExc TimeoutException m), d')"
    by (simp add: BasePage_def timeout_page_def scripted_def answer_def)
  show ?thesis
    by (rule conjI[OF h click_never_clickable[OF h, of 2 start]])
qed

lemma click_never_clickable_example:
  "click (BasePage timeout_page) (''id'', ''q'') 2 start
     = (Inl (PyException ''Click failed for (id, q)''),
        \<lparr>drv = (),
         trace = [Call (Until 10 (ElementToBeClickable (''id'', ''q''))),
                  Log WARNING (warning_sign @ '' Click failed (1/2) for (id, q) - Message: ''),
                  Sleep 1,
                  Call (Until 10 (ElementToBeClickable (''id'', ''q''))),
                  Log WARNING (warning_sign @ '' Click failed (2/2) for (id, q) - Message: ''),
                  Sleep 1,
                  Log ERROR (cross_mark @ '' Click failed for (id, q) after 2 retries'')]\<rparr>)"
  by code_simp

section \<open>is_element_present\<close>

text \<open>
  C2 (as stated, refuted).  The lookup can raise a driver error that is not a
  \<^verbatim>\<open>NoSuchElementException\<close>, for instance the \<^verbatim>\<open>WebDriverException\<close> of a browser that
  cannot be reached.  The only handler of \<open>is_element_present\<close> is
  \<^verbatim>\<open>except NoSuchElementException\<close>, so the error reaches the caller and nothing is logged.
\<close>

theorem is_element_present_counterexample:
  "is_element_present (BasePage unreachable_page) (''id'', ''q'') start
     = (Inl (Selenium (SelExc WebDriverException ''Message: chrome not reachable'')),
        \<lparr>drv = (), trace = [Call (FindElement (''id'', ''q''))]\<rparr>)"
  by code_simp

text \<open>
  C2 (amended).  \<open>is_element_present\<close> returns \<open>True\<close> when the driver finds the element
  and \<open>False\<close> when the driver reports \<^verbatim>\<open>NoSuchElementException\<close>, logging the outcome and
  raising nothing in either case; a driver error of any other class raised by the lookup
  reaches the caller unchanged.
\<close>

theorem is_element_present_found_or_absent:
  "(find_element (driver self) locator (drv st) = (Inr el, d')
      \<longrightarrow> is_element_present self locator st
           = (Inr True,
              st\<lparr>drv := d',
                 trace := trace st @ [Call (FindElement locator),
                   Log INFO (check_mark @ '' Element '' @ str_locator (driver self) locator
                     @ '' is present'')]\<rparr>))
   \<and> (find_element (driver self) locator (drv st) = (Inl (SelExc NoSuchElementException m), d')
      \<longrightarrow> is_element_present self locator st
           = (Inr False,
              st\<lparr>drv := d',
                 trace := trace st @ [Call (FindElement locator),
                   Log WARNING (warning_sign @ '' Element '' @ str_locator (driver self) locator
                     @ '' is NOT present'')]\<rparr>))
   \<and> (find_element (driver self) locator (drv st) = (Inl e, d')
        \<and> exc_class e \<noteq> NoSuchElementException
      \<longrightarrow> is_element_present self locator st
           = (Inl (Selenium e),
              st\<lparr>drv := d', trace := trace st @ [Call (FindElement locator)]\<rparr>))"
  by (simp add: is_element_present_def invoke_def logger_def isinstance_single)

theorem is_element_present_witness:
  "is_element_present (BasePage live_page) (''id'', ''q'') start
     = (Inr True,
        \<lparr>drv = (), trace = [Call (FindElement (''id'', ''q'')),
             Log INFO (check_mark @ '' Element (id, q) is present'')]\<rparr>)
   \<and> is_element_present (BasePage timeout_page) (''id'', ''q'') start
     = (Inr False,
        \<lparr>drv = (), trace = [Call (FindElement (''id'', ''q'')),
             Log WARNING (warning_sign @ '' Element (id, q) is NOT present'')]\<rparr>)
   \<and> is_element_present (BasePage unreachable_page) (''id'', ''q'') start
     = (Inl (Selenium (SelExc WebDriverException ''Message: chrome not reachable'')),
        \<lparr>drv = (), trace = [Call (FindElement (''id'', ''q''))]\<rparr>)"
  using
    is_element_present_found_or_absent
      [where self = "BasePage live_page" and locator = "(''id'', ''q'')" and st = start
         and el = "''e1''" and d' = "()"]
    is_element_present_found_or_absent
      [where self = "BasePage timeout_page" and locator = "(''id'', ''q'')" and st = start
         and m = "''Message: no such element''" and d' = "()"]
    is_element_present_found_or_absent
      [where self = "BasePage unreachable_page" and locator = "(''id'', ''q'')" and st = start
         and e = "SelExc WebDriverException ''Message: chrome not reachable''" and d' = "()"]
  by (simp add: BasePage_def live_page_def timeout_page_def unreachable_page_def start_def
        scripted_def answer_def)

section \<open>handle_alert\<close>

text \<open>
  C5.  When no alert is open (the switch to the alert raises
  \<^verbatim>\<open>NoAlertPresentException\<close>), \<open>handle_alert\<close> returns \<open>None\<close> and raises nothing.  When
  an alert is open and the driver carries the calls out, it reads the text, accepts the
  alert when \<open>accept\<close> is true and dismisses it otherwise, and returns the text.
\<close>

theorem handle_alert_absent_or_active:
  "(switch_to_alert (driver self) (drv st) = (Inl (SelExc NoAlertPresentException m), d1)
      \<longrightarrow> handle_alert self accept st
           = (Inr None,
              st\<lparr>drv := d1,
                 trace := trace st @ [Call SwitchToAlert,
                   Log WARNING (warning_sign @ '' No alert found'')]\<rparr>))
   \<and> (switch_to_alert (driver self) (drv st) = (Inr (), d1)
        \<and> alert_get_text (driver self) d1 = (Inr alert_text, d2)
        \<and> alert_accept (driver self) d2 = (Inr (), d3)
      \<longrightarrow> handle_alert self True st
           = (Inr (Some alert_text),
              st\<lparr>drv := d3,
                 trace := trace st @ [Call SwitchToAlert, Call AlertText, Call AlertAccept,
                   Log INFO (check_mark @ '' Alert accepted: '' @ alert_text)]\<rparr>))
   \<and> (switch_to_alert (driver self) (drv st) = (Inr (), d1)
        \<and> alert_get_text (driver self) d1 = (Inr alert_text, d2)
        \<and> alert_dismiss (driver self) d2 = (Inr (), d3)
      \<longrightarrow> handle_alert self False st
           = (Inr (Some alert_text),
              st\<lparr>drv := d3,
                 trace := trace st @ [Call SwitchToAlert, Call AlertText, Call AlertDismiss,
                   Log INFO (check_mark @ '' Alert dismissed: '' @ alert_text)]\<rparr>))"
  by (simp add: handle_alert_def handle_alert_try_def and_then_def invoke_def logger_def
        isinstance_single)

theorem handle_alert_absent_or_active_witness:
  "handle_alert (BasePage timeout_page) True start
     = (Inr None,
        \<lparr>drv = (), trace = [Call SwitchToAlert,
             Log WARNING (warning_sign @ '' No alert found'')]\<rparr>)
   \<and> handle_alert (BasePage live_page) True start
     = (Inr (Some ''Sure?''),
        \<lparr>drv = (), trace = [Call SwitchToAlert, Call AlertText, Call AlertAccept,
             Log INFO (check_mark @ '' Alert accepted: Sure?'')]\<rparr>)
   \<and> handle_alert (BasePage live_page) False start
     = (Inr (Some ''Sure?''),
        \<lparr>drv = (), trace = [Call SwitchToAlert, Call AlertText, Call AlertDismiss,
             Log INFO (check_mark @ '' Alert dismissed: Sure?'')]\<rparr>)"
  using
    handle_alert_absent_or_active
      [where self = "BasePage timeout_page" and st = start and m = "''Message: no such alert''"
         and ?d1.0 = "()" and accept = True]
    handle_alert_absent_or_active
      [where self = "BasePage live_page" and st = start and alert_text = "''Sure?''"
         and ?d1.0 = "()" and ?d2.0 = "()" and ?d3.0 = "()"]
  by (simp add: BasePage_def live_page_def timeout_page_def start_def scripted_def answer_def)

text \<open>
  C10.  \<open>handle_alert\<close> never raises: every driver exception is a
  \<^verbatim>\<open>WebDriverException\<close>, which its handler catches.  Whichever call fails (the switch to
  the alert, reading its text, accepting or dismissing an alert that is open), the
  outcome is the one of an absent alert: the one warning record and the result \<open>None\<close>.
\<close>

theorem handle_alert_never_raises:
  "(\<exists>r st'. handle_alert self accept st = (Inr r, st'))
   \<and> (switch_to_alert (driver self) (drv st) = (Inl e, d1)
      \<longrightarrow> handle_alert self accept st
           = (Inr None,
              st\<lparr>drv := d1,
                 trace := trace st @ [Call SwitchToAlert,
                   Log WARNING (warning_sign @ '' No alert found'')]\<rparr>))
   \<and> (switch_to_alert (driver self) (drv st) = (Inr (), d1)
        \<and> alert_get_text (driver self) d1 = (Inl e, d2)
      \<longrightarrow> handle_alert self accept st
           = (Inr None,
              st\<lparr>drv := d2,
                 trace := trace st @ [Call SwitchToAlert, Call AlertText,
                   Log WARNING (warning_sign @ '' No alert found'')]\<rparr>))
   \<and> (switch_to_alert (driver self) (drv st) = (Inr (), d1)
        \<and> alert_get_text (driver self) d1 = (Inr alert_text, d2)
        \<and> alert_accept (driver self) d2 = (Inl e, d3)
      \<longrightarrow> handle_alert self True st
           = (Inr None,
              st\<lparr>drv := d3,
                 trace := trace st @ [Call SwitchToAlert, Call AlertText, Call AlertAccept,
                   Log WARNING (warning_sign @ '' No alert found'')]\<rparr>))
   \<and> (switch_to_alert (driver self) (drv st) = (Inr (), d1)
        \<and> alert_get_text (driver self) d1 = (Inr alert_text, d2)
        \<and> alert_dismiss (driver self) d2 = (Inl e, d3)
      \<longrightarrow> handle_alert self False st
           = (Inr None,
              st\<lparr>drv := d3,
                 trace := trace st @ [Call SwitchToAlert, Call AlertText, Call AlertDismiss,
                   Log WARNING (warning_sign @ '' No alert found'')]\<rparr>))"
proof -
  have total: "\<exists>r st'. handle_alert self accept st = (Inr r, st')"
    by (simp add: handle_alert_def isinstance_single split: prod.splits sum.splits)
  show ?thesis
    using total
    by (simp add: handle_alert_def handle_alert_try_def and_then_def invoke_def logger_def
          isinstance_single)
qed

theorem handle_alert_never_raises_witness:
  "handle_alert (BasePage (scripted [AlertDismiss
        \<mapsto> SelExc WebDriverException ''Message: unknown error''])) False start
     = (Inr None,
        \<lparr>drv = (),
         trace = [Call SwitchToAlert, Call AlertText, Call AlertDismiss,
                  Log WARNING (warning_sign @ '' No alert found'')]\<rparr>)
   \<and> handle_alert (BasePage (scripted [AlertAccept
        \<mapsto> SelExc WebDriverException ''Message: unknown error''])) True start
     = (Inr None,
        \<lparr>drv = (),
         trace = [Call SwitchToAlert, Call AlertText, Call AlertAccept,
                  Log WARNING (warning_sign @ '' No alert found'')]\<rparr>)
   \<and> handle_alert (BasePage (scripted [AlertText
        \<mapsto> SelExc WebDriverException ''Message: unknown error''])) True start
     = (Inr None,
        \<lparr>drv = (),
         trace = [Call SwitchToAlert, Call AlertText,
                  Log WARNING (warning_sign @ '' No alert found'')]\<rparr>)
   \<and> handle_alert (BasePage timeout_page) True start
     = (Inr None,
        \<lparr>drv = (),
         trace = [Call SwitchToAlert,
                  Log WARNING (warning_sign @ '' No alert found'')]\<rparr>)"
  using
    handle_alert_never_raises
      [where self = "BasePage (scripted [AlertDismiss
          \<mapsto> SelExc WebDriverException ''Message: unknown error''])"
         and st = start and alert_text = "''Sure?''"
         and ?d1.0 = "()" and ?d2.0 = "()" and ?d3.0 = "()"
         and e = "SelExc WebDriverException ''Message: unknown error''"]
    handle_alert_never_raises
      [where self = "BasePage (scripted [AlertAccept
          \<mapsto> SelExc WebDriverException ''Message: unknown error''])"
         and st = start and alert_text = "''Sure?''"
         and ?d1.0 = "()" and ?d2.0 = "()" and ?d3.0 = "()"
         and e = "SelExc WebDriverException ''Message: unknown error''"]
    handle_alert_never_raises
      [where self = "BasePage (scripted [AlertText
          \<mapsto> SelExc WebDriverException ''Message: unknown error''])"
         and st = start and accept = True
         and ?d1.0 = "()" and ?d2.0 = "()"
         and e = "SelExc WebDriverException ''Message: unknown error''"]
    handle_alert_never_raises
      [where self = "BasePage timeout_page"
         and st = start and accept = True and ?d1.0 = "()"
         and e = "SelExc NoAlertPresentException ''Message: no such alert''"]
  by (simp add: BasePage_def timeout_page_def start_def scripted_def answer_def)

section \<open>enter_text\<close>

text \<open>
  C6.  When the wait for the element times out, \<open>enter_text\<close> logs an error record
  that ends with the locator and raises \<^verbatim>\<open>Exception("Timeout: Unable to enter text in ...")\<close>.
  When the element is there, it clears the field if \<open>clear\<close> is set, sends the keys and
  logs the success.  In every case it waits exactly once: there is no retry.
\<close>

theorem enter_text_absent_or_present:
  "(wait_until (driver self) (wait self) (PresenceOfElementLocated locator) (drv st)
        = (Inl (SelExc TimeoutException m), d1)
      \<longrightarrow> enter_text self locator text clear st
           = (Inl (PyException
                (''Timeout: Unable to enter text in '' @ str_locator (driver self) locator)),
              st\<lparr>drv := d1,
                 trace := trace st @ [Call (Until (wait self) (PresenceOfElementLocated locator)),
                   Log ERROR (cross_mark @ '' Timeout: Unable to enter text in ''
                     @ str_locator (driver self) locator)]\<rparr>))
   \<and> (wait_until (driver self) (wait self) (PresenceOfElementLocated locator) (drv st)
        = (Inr element, d1)
        \<and> element_clear (driver self) element d1 = (Inr (), d2)
        \<and> element_send_keys (driver self) element text d2 = (Inr (), d3)
      \<longrightarrow> enter_text self locator text True st
           = (Inr (),
              st\<lparr>drv := d3,
                 trace := trace st @ [Call (Until (wait self) (PresenceOfElementLocated locator)),
                   Call (Clear element), Call (SendKeys element text),
                   Log INFO (check_mark @ '' Entered text '' @ [CHR 0x27] @ text @ [CHR 0x27]
                     @ '' in '' @ str_locator (driver self) locator)]\<rparr>))
   \<and> (wait_until (driver self) (wait self) (PresenceOfElementLocated locator) (drv st)
        = (Inr element, d1)
        \<and> element_send_keys (driver self) element text d1 = (Inr (), d3)
      \<longrightarrow> enter_text self locator text False st
           = (Inr (),
              st\<lparr>drv := d3,
                 trace := trace st @ [Call (Until (wait self) (PresenceOfElementLocated locator)),
                   Call (SendKeys element text),
                   Log INFO (check_mark @ '' Entered text '' @ [CHR 0x27] @ text @ [CHR 0x27]
                     @ '' in '' @ str_locator (driver self) locator)]\<rparr>))"
  by (simp add: enter_text_def enter_text_try_def and_then_def until_def invoke_def logger_def
        isinstance_single)

theorem enter_text_absent_or_present_witness:
  "enter_text (BasePage timeout_page) (''id'', ''q'') ''hi'' True start
     = (Inl (PyException ''Timeout: Unable to enter text in (id, q)''),
        \<lparr>drv = (), trace = [Call (Until 10 (PresenceOfElementLocated (''id'', ''q''))),
             Log ERROR (cross_mark @ '' Timeout: Unable to enter text in (id, q)'')]\<rparr>)
   \<and> enter_text (BasePage live_page) (''id'', ''q'') ''hi'' True start
     = (Inr (),
        \<lparr>drv = (), trace = [Call (Until 10 (PresenceOfElementLocated (''id'', ''q''))),
             Call (Clear ''e1''), Call (SendKeys ''e1'' ''hi''),
             Log INFO (check_mark @ '' Entered text '' @ [CHR 0x27] @ ''hi'' @ [CHR 0x27]
               @ '' in (id, q)'')]\<rparr>)
   \<and> enter_text (BasePage live_page) (''id'', ''q'') ''hi'' False start
     = (Inr (),
        \<lparr>drv = (), trace = [Call (Until 10 (PresenceOfElementLocated (''id'', ''q''))),
             Call (SendKeys ''e1'' ''hi''),
             Log INFO (check_mark @ '' Entered text '' @ [CHR 0x27] @ ''hi'' @ [CHR 0x27]
               @ '' in (id, q)'')]\<rparr>)"
  using
    enter_text_absent_or_present
      [where self = "BasePage timeout_page" and locator = "(''id'', ''q'')" and st = start
         and m = "''Message: ''" and ?d1.0 = "()" and ?text = "''hi''" and clear = True]
    enter_text_absent_or_present
      [where self = "BasePage live_page" and locator = "(''id'', ''q'')" and st = start
         and element = "''e1''" and ?d1.0 = "()" and ?d2.0 = "()" and ?d3.0 = "()"
         and ?text = "''hi''"]
  by (simp add: BasePage_def live_page_def timeout_page_def start_def scripted_def answer_def)

text \<open>
  C9 (as stated, refuted).  The handler \<^verbatim>\<open>except TimeoutException\<close> guards the whole
  \<^verbatim>\<open>try\<close> block, not the wait alone: a \<^verbatim>\<open>TimeoutException\<close> raised while clearing the
  field (a renderer that does not answer) is logged and turned into the labelled failure
  as well.
\<close>

theorem enter_text_timeout_while_clearing:
  "enter_text (BasePage hung_page) (''id'', ''q'') ''hi'' True start
     = (Inl (PyException ''Timeout: Unable to enter text in (id, q)''),
        \<lparr>drv = (),
         trace = [Call (Until 10 (PresenceOfElementLocated (''id'', ''q''))),
                  Call (Clear ''e1''),
                  Log ERROR (cross_mark @ '' Timeout: Unable to enter text in (id, q)'')]\<rparr>)"
  by code_simp

text \<open>
  C9 (amended).  Once the element is found, a driver error raised while clearing the
  field or sending the keys reaches the caller raw and unlogged, unless it is a
  \<^verbatim>\<open>TimeoutException\<close>: that one is logged as an error and turned into the labelled
  failure, as the timeout of the wait is.
\<close>

theorem enter_text_error_after_found:
  "(wait_until (driver self) (wait self) (PresenceOfElementLocated locator) (drv st)
        = (Inr element, d1)
        \<and> element_clear (driver self) element d1 = (Inl e, d2)
      \<longrightarrow> enter_text self locator text True st
           = (if exc_class e = TimeoutException
              then (Inl (PyException
                      (''Timeout: Unable to enter text in '' @ str_locator (driver self) locator)),
                    st\<lparr>drv := d2,
                       trace := trace st
                         @ [Call (Until (wait self) (PresenceOfElementLocated locator)),
                            Call (Clear element),
                            Log ERROR (cross_mark @ '' Timeout: Unable to enter text in ''
                              @ str_locator (driver self) locator)]\<rparr>)
              else (Inl (Selenium e),
                    st\<lparr>drv := d2,
                       trace := trace st
                         @ [Call (Until (wait self) (PresenceOfElementLocated locator)),
                            Call (Clear element)]\<rparr>)))
   \<and> (wait_until (driver self) (wait self) (PresenceOfElementLocated locator) (drv st)
        = (Inr element, d1)
        \<and> element_clear (driver self) element d1 = (Inr (), d2)
        \<and> element_send_keys (driver self) element text d2 = (Inl e, d3)
      \<longrightarrow> enter_text self locator text True st
           = (if exc_class e = TimeoutException
              then (Inl (PyException
                      (''Timeout: Unable to enter text in '' @ str_locator (driver self) locator)),
                    st\<lparr>drv := d3,
                       trace := trace st
                         @ [Call (Until (wait self) (PresenceOfElementLocated locator)),
                            Call (Clear element), Call (SendKeys element text),
                            Log ERROR (cross_mark @ '' Timeout: Unable to enter text in ''
                              @ str_locator (driver self) locator)]\<rparr>)
              else (Inl (Selenium e),
                    st\<lparr>drv := d3,
                       trace := trace st
                         @ [Call (Until (wait self) (PresenceOfElementLocated locator)),
                            Call (Clear element), Call (SendKeys element text)]\<rparr>)))
   \<and> (wait_until (driver self) (wait self) (PresenceOfElementLocated locator) (drv st)
        = (Inr element, d1)
        \<and> element_send_keys (driver self) element text d1 = (Inl e, d3)
      \<longrightarrow> enter_text self locator text False st
           = (if exc_class e = TimeoutException
              then (Inl (PyException
                      (''Timeout: Unable to enter text in '' @ str_locator (driver self) locator)),
                    st\<lparr>drv := d3,
                       trace := trace st
                         @ [Call (Until (wait self) (PresenceOfElementLocated locator)),
                            Call (SendKeys element text),
                            Log ERROR (cross_mark @ '' Timeout: Unable to enter text in ''
                              @ str_locator (driver self) locator)]\<rparr>)
              else (Inl (Selenium e),
                    st\<lparr>drv := d3,
                       trace := trace st
                         @ [Call (Until (wait self) (PresenceOfElementLocated locator)),
                            Call (SendKeys element text)]\<rparr>)))"
  by (simp add: enter_text_def enter_text_try_def and_then_def until_def invoke_def logger_def
        isinstance_single)

theorem enter_text_error_after_found_witness:
  "enter_text (BasePage stale_page) (''id'', ''q'') ''hi'' True start
     = (Inl (Selenium (SelExc StaleElementReferenceException
               ''Message: stale element reference'')),
        \<lparr>drv = (),
         trace = [Call (Until 10 (PresenceOfElementLocated (''id'', ''q''))),
                  Call (Clear ''e1'')]\<rparr>)
   \<and> enter_text (BasePage (scripted [SendKeys ''e1'' ''hi''
          \<mapsto> SelExc StaleElementReferenceException ''Message: stale element reference'']))
        (''id'', ''q'') ''hi'' True start
     = (Inl (Selenium (SelExc StaleElementReferenceException
               ''Message: stale element reference'')),
        \<lparr>drv = (),
         trace = [Call (Until 10 (PresenceOfElementLocated (''id'', ''q''))),
                  Call (Clear ''e1''), Call (SendKeys ''e1'' ''hi'')]\<rparr>)
   \<and> enter_text (BasePage (scripted [SendKeys ''e1'' ''hi''
          \<mapsto> SelExc StaleElementReferenceException ''Message: stale element reference'']))
        (''id'', ''q'') ''hi'' False start
     = (Inl (Selenium (SelExc StaleElementReferenceException
               ''Message: stale element reference'')),
        \<lparr>drv = (),
         trace = [Call (Until 10 (PresenceOfElementLocated (''id'', ''q''))),
                  Call (SendKeys ''e1'' ''hi'')]\<rparr>)"
  using
    enter_text_error_after_found
      [where self = "BasePage stale_page" and locator = "(''id'', ''q'')" and st = start
         and element = "''e1''" and ?d1.0 = "()" and ?d2.0 = "()" and ?text = "''hi''"
         and e = "SelExc StaleElementReferenceException ''Message: stale element reference''"]
    enter_text_error_after_found
      [where self = "BasePage (scripted [SendKeys ''e1'' ''hi''
          \<mapsto> SelExc StaleElementReferenceException ''Message: stale element reference''])"
         and locator = "(''id'', ''q'')" and st = start
         and element = "''e1''" and ?d1.0 = "()" and ?d2.0 = "()" and ?d3.0 = "()"
         and ?text = "''hi''"
         and e = "SelExc StaleElementReferenceException ''Message: stale element reference''"]
  by (simp add: BasePage_def stale_page_def start_def scripted_def answer_def)

section \<open>wait_for_page_load\<close>

text \<open>
  C7.  \<open>wait_for_page_load timeout\<close> hands the page-ready signal to the driver's bounded
  wait, with the given timeout, once.  When the page is ready in time it logs the success;
  when the wait times out it logs an error record and returns normally, raising nothing.
\<close>

theorem wait_for_page_load_never_raises_on_timeout:
  "(wait_ready_state (driver self) timeout (drv st) = (Inr (), d1)
      \<longrightarrow> wait_for_page_load self timeout st
           = (Inr (),
              st\<lparr>drv := d1,
                 trace := trace st @ [Call (UntilReadyState timeout),
                   Log INFO (check_mark @ '' Page fully loaded'')]\<rparr>))
   \<and> (wait_ready_state (driver self) timeout (drv st) = (Inl (SelExc TimeoutException m), d1)
      \<longrightarrow> wait_for_page_load self timeout st
           = (Inr (),
              st\<lparr>drv := d1,
                 trace := trace st @ [Call (UntilReadyState timeout),
                   Log ERROR (cross_mark @ '' Timeout: Page did not load completely'')]\<rparr>))"
  by (simp add: wait_for_page_load_def invoke_def logger_def isinstance_single)

theorem wait_for_page_load_witness:
  "wait_for_page_load (BasePage live_page) 10 start
     = (Inr (),
        \<lparr>drv = (), trace = [Call (UntilReadyState 10),
             Log INFO (check_mark @ '' Page fully loaded'')]\<rparr>)
   \<and> wait_for_page_load (BasePage timeout_page) 10 start
     = (Inr (),
        \<lparr>drv = (), trace = [Call (UntilReadyState 10),
             Log ERROR (cross_mark @ '' Timeout: Page did not load completely'')]\<rparr>)"
  using
    wait_for_page_load_never_raises_on_timeout
      [where self = "BasePage live_page" and timeout = 10 and st = start and ?d1.0 = "()"]
    wait_for_page_load_never_raises_on_timeout
      [where self = "BasePage timeout_page" and timeout = 10 and st = start
         and m = "''Message: ''" and ?d1.0 = "()"]
  by (simp add: BasePage_def live_page_def timeout_page_def start_def scripted_def answer_def)

section \<open>Failures of click, enter_text, get_text and scroll_to_element\<close>




















section \<open>The browser fixture closes the browser\<close>

lemma browser_except_raises: "\<exists>x st'. browser_except ops e has_driver st = (Inl x, st')"
  by (simp add: browser_except_def split: prod.splits sum.splits)

lemma browser_setup_yields:
  assumes "browser_setup ops st = (Inr (), st1)"
  shows "new_events st st1
           = [Log INFO ''Starting the browser setup...'', Call (StartChrome driver_path),
              Call (ImplicitlyWait 10), Log INFO ''Navigating to Google homepage'',
              Call (Get ''https://www.google.com'')]
         \<and> take (length (trace st)) (trace st1) = trace st"
proof -
  have no: "\<And>e b s. browser_except ops e b s \<noteq> (Inr (), st1)"
    using browser_except_raises by (metis Inl_Inr_False prod.inject)
  from assms show ?thesis
    unfolding browser_setup_def invoke_def logger_def new_events_def
    by (auto split: prod.splits sum.splits simp: no)
qed

lemma browser_teardown_quits:
  assumes "driver_quit ops (drv st2) = (q, d3)"
  shows "browser_teardown ops st2
           = (case q of
                Inl e \<Rightarrow> (Inl (Selenium e), st2\<lparr>drv := d3, trace := trace st2 @ [Call Quit]\<rparr>)
              | Inr u \<Rightarrow> (Inr (),
                  st2\<lparr>drv := d3,
                      trace := trace st2 @ [Call Quit,
                        Log INFO ''Browser closed after the test.'']\<rparr>))"
  using assms
  by (simp add: browser_teardown_def browser_finally_def and_then_def invoke_def logger_def
        split: sum.splits)

text \<open>
  C4.  Whenever the set-up hands the driver to the test, the fixture closes the browser
  exactly once after the test body, whatever the body returned or raised (\<open>r\<close> is any
  outcome: a pass, a failed assertion, an unexpected error): the first thing done after the
  body is the one call of \<^verbatim>\<open>driver.quit()\<close>, and the set-up itself made none.
\<close>

theorem browser_closed_once_after_test:
  assumes "browser_setup ops st = (Inr (), st1)"
    and "body st1 = (r, st2)"
  shows "\<exists>t st3. run_test ops body st
            = (\<lparr>setup_outcome = Inr (), call_outcome = Some r, teardown_outcome = Some t\<rparr>, st3)
         \<and> take (length (trace st2)) (trace st3) = trace st2
         \<and> new_events st2 st3
             = (if t = Inr () then [Call Quit, Log INFO ''Browser closed after the test.'']
                else [Call Quit])
         \<and> count_list (calls (new_events st2 st3)) Quit = 1
         \<and> count_list (calls (new_events st st1)) Quit = 0"
proof -
  obtain q d3 where q: "driver_quit ops (drv st2) = (q, d3)"
    by (cases "driver_quit ops (drv st2)")
  have s: "count_list (calls (new_events st st1)) Quit = 0"
    using browser_setup_yields[OF assms(1)] by simp
  show ?thesis
  proof (cases q)
    case (Inl e)
    let ?st3 = "st2\<lparr>drv := d3, trace := trace st2 @ [Call Quit]\<rparr>"
    have "run_test ops body st
            = (\<lparr>setup_outcome = Inr (), call_outcome = Some r,
                teardown_outcome = Some (Inl (Selenium e))\<rparr>, ?st3)"
      using assms Inl by (simp add: run_test_def browser_teardown_quits[OF q])
    then show ?thesis using s
      by (intro exI[of _ "Inl (Selenium e)"] exI[of _ ?st3]) (simp add: new_events_def)
  next
    case (Inr u)
    let ?st3 = "st2\<lparr>drv := d3,
       trace := trace st2 @ [Call Quit, Log INFO ''Browser closed after the test.'']\<rparr>"
    have "run_test ops body st
            = (\<lparr>setup_outcome = Inr (), call_outcome = Some r,
                teardown_outcome = Some (Inr ())\<rparr>, ?st3)"
      using assms Inr by (simp add: run_test_def browser_teardown_quits[OF q])
    then show ?thesis using s
      by (intro exI[of _ "Inr ()"] exI[of _ ?st3]) (simp add: new_events_def)
  qed
qed

theorem browser_closed_once_after_test_witness:
  "browser_setup live_page start = (Inr (), snd (browser_setup live_page start))
   \<and> count_list (calls (new_events
         (snd (passing_body (snd (browser_setup live_page start))))
         (snd (run_test live_page passing_body start)))) Quit = 1
   \<and> count_list (calls (new_events
         (snd (failing_body (snd (browser_setup live_page start))))
         (snd (run_test live_page failing_body start)))) Quit = 1
   \<and> count_list (calls (new_events
         (snd (erroring_body (snd (browser_setup live_page start))))
         (snd (run_test live_page erroring_body start)))) Quit = 1
   \<and> call_outcome (fst (run_test live_page failing_body start))
       = Some (Inl (AssertionError ''Google homepage title is not correct.''))"
proof -
  let ?s1 = "snd (browser_setup live_page start)"
  have h: "browser_setup live_page start = (Inr (), ?s1)"
    by code_simp
  have b: "\<And>body. body ?s1 = (fst (body ?s1), snd (body ?s1))"
    by simp
  from browser_closed_once_after_test[where body = passing_body, OF h b[of passing_body]]
  have 1: "count_list (calls (new_events (snd (passing_body ?s1))
             (snd (run_test live_page passing_body start)))) Quit = 1"
    by auto
  from browser_closed_once_after_test[where body = failing_body, OF h b[of failing_body]]
  have 2: "count_list (calls (new_events (snd (failing_body ?s1))
             (snd (run_test live_page failing_body start)))) Quit = 1"
    by auto
  from browser_closed_once_after_test[where body = erroring_body, OF h b[of erroring_body]]
  have 3: "count_list (calls (new_events (snd (erroring_body ?s1))
             (snd (run_test live_page erroring_body start)))) Quit = 1"
    by auto
  from browser_closed_once_after_test[where body = failing_body, OF h b[of failing_body]]
  have 4: "call_outcome (fst (run_test live_page failing_body start))
       = Some (Inl (AssertionError ''Google homepage title is not correct.''))"
    by (auto simp: failing_body_def)
  from h 1 2 3 4 show ?thesis by blast
qed

section \<open>The log files of a run\<close>








end
